theory Spec2Isabelle
  imports Complex_Main "HOL-Library.Multiset"
begin

section \<open>Frontmatter values\<close>

text \<open>
  A date instant, by its UTC fields (what \<open>Date\<close> holds, as \<open>toISOString\<close> reads it).
\<close>

record instant =
  year :: nat
  month :: nat
  day :: nat
  hours :: nat
  minutes :: nat
  seconds :: nat
  millis :: nat

text \<open>
  The values that the frontmatter codec hands to pattern detection.  Arrays, objects and dates
  are heap values: each carries the identity of the object, because
  \<open>Array.prototype.includes\<close> compares such values by reference and all others by value.

  Numbers are the finite doubles, taken as the rationals they denote, and the arithmetic on
  frequencies and confidences below is that of the rationals.  The source compares a frequency
  \<open>k / n\<close> with 0.2 and 0.8, and a confidence (a sum of 0.6, 0.2, 0.2, 0.1 and 0.1, capped at 1)
  with 0.7 and 0.8; on doubles these comparisons come out as on rationals, for every \<open>n\<close>
  below \<open>10^15\<close> and for each of the sixteen sums.
\<close>

datatype jsval =
    JUndefined
  | JNull
  | JBool bool
  | JNum rat
  | JStr string
  | JArr nat "jsval list"
  | JObj nat "(string \<times> jsval) list"
  | JDate nat instant

text \<open>\<open>Array.isArray(value) ? 'array' : typeof value\<close>\<close>

fun valueTypeOf :: "jsval \<Rightarrow> string" where
  "valueTypeOf JUndefined = ''undefined''"
| "valueTypeOf JNull = ''object''"
| "valueTypeOf (JBool b) = ''boolean''"
| "valueTypeOf (JNum n) = ''number''"
| "valueTypeOf (JStr s) = ''string''"
| "valueTypeOf (JArr r xs) = ''array''"
| "valueTypeOf (JObj r kvs) = ''object''"
| "valueTypeOf (JDate r t) = ''object''"

text \<open>The comparison behind \<open>includes\<close> (SameValueZero).\<close>

fun sameValueZero :: "jsval \<Rightarrow> jsval \<Rightarrow> bool" where
  "sameValueZero (JArr r xs) (JArr r' ys) = (r = r')"
| "sameValueZero (JObj r kvs) (JObj r' kvs') = (r = r')"
| "sameValueZero (JDate r t) (JDate r' t') = (r = r')"
| "sameValueZero (JArr r xs) w = False"
| "sameValueZero (JObj r kvs) w = False"
| "sameValueZero (JDate r t) w = False"
| "sameValueZero v w = (v = w)"

definition includes_js :: "jsval list \<Rightarrow> jsval \<Rightarrow> bool" where
  "includes_js xs v = list_ex (\<lambda>x. sameValueZero x v) xs"

section \<open>Pattern detection (pattern-detection.ts)\<close>

record FieldPattern =
  fieldName :: string
  frequency :: rat
  types :: "string list"
  examples :: "jsval list"

record FrontmatterPattern =
  commonFields :: "FieldPattern list"
  requiredFields :: "string list"
  optionalFields :: "string list"
  rareFields :: "string list"
  totalPosts :: nat
  confidence :: rat

text \<open>
  A keyed collection in insertion order (the \<open>Map<string, FieldPattern>\<close> of the analysis,
  and the template object): a new key goes to the end, an existing key keeps its place.
\<close>

type_synonym fieldMap = "(string \<times> FieldPattern) list"

fun map_has :: "(string \<times> 'v) list \<Rightarrow> string \<Rightarrow> bool" where
  "map_has [] k = False"
| "map_has ((k', p) # m) k = (k' = k \<or> map_has m k)"

fun map_get :: "(string \<times> 'v) list \<Rightarrow> string \<Rightarrow> 'v option" where
  "map_get [] k = None"
| "map_get ((k', p) # m) k = (if k' = k then Some p else map_get m k)"

fun map_set :: "(string \<times> 'v) list \<Rightarrow> string \<Rightarrow> 'v \<Rightarrow> (string \<times> 'v) list" where
  "map_set [] k p = [(k, p)]"
| "map_set ((k', p') # m) k p = (if k' = k then (k, p) # m else (k', p') # map_set m k p)"

text \<open>
  The body of the inner loop of \<open>analyzeFrontmatterPatterns\<close>, for one entry of one sample.
  The source mutates the pattern object held by the map; here the updated pattern is stored back.
\<close>

definition observe :: "fieldMap \<Rightarrow> string \<times> jsval \<Rightarrow> fieldMap" where
  "observe m e =
     (let name = fst e; v = snd e;
          m1 = (if \<not> map_has m name
                then map_set m name \<lparr>fieldName = name, frequency = 0, types = [], examples = []\<rparr>
                else m)
      in case map_get m1 name of
           None \<Rightarrow> m1
         | Some pattern \<Rightarrow>
             (let p1 = pattern\<lparr>frequency := frequency pattern + 1\<rparr>;
                  valueType = valueTypeOf v;
                  p2 = (if valueType \<notin> set (types p1)
                        then p1\<lparr>types := types p1 @ [valueType]\<rparr> else p1);
                  p3 = (if length (examples p2) < 3 \<and> \<not> includes_js (examples p2) v
                        then p2\<lparr>examples := examples p2 @ [v]\<rparr> else p2)
              in map_set m1 name p3))"

text \<open>A sample is the list that \<open>Object.entries\<close> gives for one post's frontmatter.\<close>

type_synonym sample = "(string \<times> jsval) list"

definition countFields :: "sample list \<Rightarrow> fieldMap" where
  "countFields samples = foldl (\<lambda>m sample. foldl observe m sample) [] samples"

definition normalizeFrequencies :: "nat \<Rightarrow> fieldMap \<Rightarrow> fieldMap" where
  "normalizeFrequencies nposts m =
     map (\<lambda>(k, pattern). (k, pattern\<lparr>frequency := frequency pattern / of_nat nposts\<rparr>)) m"

text \<open>The three tiers, as the loop over \<open>commonFields\<close> fills them.\<close>

fun categorize :: "FieldPattern list \<Rightarrow> string list \<times> string list \<times> string list
                   \<Rightarrow> string list \<times> string list \<times> string list" where
  "categorize [] acc = acc"
| "categorize (field # fs) (req, opt, rare) =
     (if frequency field \<ge> 8 / 10 then categorize fs (req @ [fieldName field], opt, rare)
      else if frequency field \<ge> 2 / 10 then categorize fs (req, opt @ [fieldName field], rare)
      else categorize fs (req, opt, rare @ [fieldName field]))"

definition calculateConfidence :: "FieldPattern list \<Rightarrow> nat \<Rightarrow> rat" where
  "calculateConfidence fs nposts =
     (if nposts < 2 then 5 / 10
      else
        let requiredFieldCount = length (filter (\<lambda>f. frequency f \<ge> 8 / 10) fs);
            hasTitle = list_ex (\<lambda>f. fieldName f = ''title'' \<and> frequency f \<ge> 8 / 10) fs;
            hasDate = list_ex (\<lambda>f.
                (fieldName f = ''date'' \<or> fieldName f = ''publishedAt''
                   \<or> fieldName f = ''publishDate'')
                \<and> frequency f \<ge> 8 / 10) fs;
            c0 = 6 / 10;
            c1 = (if hasTitle then c0 + 2 / 10 else c0);
            c2 = (if hasDate then c1 + 2 / 10 else c1);
            c3 = (if requiredFieldCount \<ge> 3 then c2 + 1 / 10 else c2);
            c4 = (if nposts \<ge> 5 then c3 + 1 / 10 else c3)
        in min c4 1)"

definition analyzeFrontmatterPatterns :: "sample list \<Rightarrow> FrontmatterPattern" where
  "analyzeFrontmatterPatterns samples =
     (let nposts = length samples;
          fieldFrequency = normalizeFrequencies nposts (countFields samples);
          fs = map snd fieldFrequency;
          tiers = categorize fs ([], [], [])
      in \<lparr>commonFields = fs,
          requiredFields = fst tiers,
          optionalFields = fst (snd tiers),
          rareFields = snd (snd tiers),
          totalPosts = nposts,
          confidence = calculateConfidence fs nposts\<rparr>)"

subsection \<open>Counting occurrences in the samples\<close>

definition occurrences :: "string \<Rightarrow> (string \<times> jsval) list \<Rightarrow> nat" where
  "occurrences k es = length (filter (\<lambda>e. fst e = k) es)"

definition counted :: "fieldMap \<Rightarrow> (string \<times> jsval) list \<Rightarrow> bool" where
  "counted m es \<longleftrightarrow>
     distinct (map fst m) \<and> set (map fst m) = set (map fst es) \<and>
     (\<forall>k p. map_get m k = Some p \<longrightarrow>
        fieldName p = k \<and> frequency p = of_nat (occurrences k es))"

text \<open>
  The occurrence frequency of a field name in a sample list, as the data model defines it: the
  number of samples that have the field, over the number of samples.
\<close>

definition hasField :: "string \<Rightarrow> sample \<Rightarrow> bool" where
  "hasField k s = (k \<in> set (map fst s))"

definition frequencyOf :: "string \<Rightarrow> sample list \<Rightarrow> rat" where
  "frequencyOf k samples = of_nat (length (filter (hasField k) samples)) / of_nat (length samples)"

definition fieldNames :: "sample list \<Rightarrow> string list" where
  "fieldNames samples = remdups (map fst (concat samples))"

text \<open>An object has each key once, so \<open>Object.entries\<close> lists no key twice.\<close>

definition wellFormed :: "sample list \<Rightarrow> bool" where
  "wellFormed samples = list_all (\<lambda>s. distinct (map fst s)) samples"


text \<open>Samples that all have the same set of field names.\<close>

definition sameFieldSet :: "sample list \<Rightarrow> bool" where
  "sameFieldSet samples =
     (case samples of
        [] \<Rightarrow> True
      | s # rest \<Rightarrow> list_all (\<lambda>t. set (map fst t) = set (map fst s)) rest)"

subsection \<open>Template generation\<close>

text \<open>Plain \<open>typeof\<close>: an array is an object.\<close>

fun typeOf :: "jsval \<Rightarrow> string" where
  "typeOf (JArr r xs) = ''object''"
| "typeOf v = valueTypeOf v"

text \<open>
  \<open>Object.keys(value).length\<close> for a value that is an object: the entries of a plain object,
  the indices of an array, nothing for a date.
\<close>

fun ownKeyCount :: "jsval \<Rightarrow> nat" where
  "ownKeyCount (JObj r kvs) = length kvs"
| "ownKeyCount (JArr r xs) = length xs"
| "ownKeyCount (JStr s) = length s"
| "ownKeyCount v = 0"

text \<open>\<open>typeof v === 'object' && v !== null && Object.keys(v).length === 0\<close>\<close>

definition isEmptyObject :: "jsval \<Rightarrow> bool" where
  "isEmptyObject v = (typeOf v = ''object'' \<and> v \<noteq> JNull \<and> ownKeyCount v = 0)"

definition shouldSkipField :: "string \<Rightarrow> FieldPattern \<Rightarrow> bool" where
  "shouldSkipField name fieldPattern =
     (if ''object'' \<in> set (types fieldPattern)
      then (if list_all isEmptyObject (examples fieldPattern) then True else False)
      else False)"

text \<open>
  The world that template generation reads and writes: the clock (its successive readings by
  \<open>new Date()\<close>) and the heap (the identity of the next object created).
\<close>

record world =
  clock :: "nat \<Rightarrow> instant"
  reads :: nat
  nextRef :: nat

definition readClock :: "world \<Rightarrow> instant \<times> world" where
  "readClock w = (clock w (reads w), w\<lparr>reads := Suc (reads w)\<rparr>)"

definition newDate :: "world \<Rightarrow> jsval \<times> world" where
  "newDate w =
     (let (t, w1) = readClock w
      in (JDate (nextRef w1) t, w1\<lparr>nextRef := Suc (nextRef w1)\<rparr>))"

definition newArray :: "world \<Rightarrow> jsval \<times> world" where
  "newArray w = (JArr (nextRef w) [], w\<lparr>nextRef := Suc (nextRef w)\<rparr>)"

definition newObject :: "world \<Rightarrow> jsval \<times> world" where
  "newObject w = (JObj (nextRef w) [], w\<lparr>nextRef := Suc (nextRef w)\<rparr>)"

text \<open>\<open>Date.prototype.toISOString\<close>: \<open>YYYY-MM-DDTHH:mm:ss.sssZ\<close>, six digits and a sign for a
  year past 9999.\<close>

definition digitChar :: "nat \<Rightarrow> char" where
  "digitChar d = ''0123456789'' ! (d mod 10)"

fun pad :: "nat \<Rightarrow> nat \<Rightarrow> string" where
  "pad 0 n = []"
| "pad (Suc width) n = pad width (n div 10) @ [digitChar n]"

definition toISOString :: "instant \<Rightarrow> string" where
  "toISOString t =
     (if year t \<le> 9999 then pad 4 (year t) else CHR ''+'' # pad 6 (year t))
     @ ''-'' @ pad 2 (month t) @ ''-'' @ pad 2 (day t)
     @ ''T'' @ pad 2 (hours t) @ '':'' @ pad 2 (minutes t) @ '':'' @ pad 2 (seconds t)
     @ ''.'' @ pad 3 (millis t) @ ''Z''"

text \<open>\<open>s.split('T')[0]\<close>\<close>

definition beforeT :: "string \<Rightarrow> string" where
  "beforeT s = takeWhile (\<lambda>c. c \<noteq> CHR ''T'') s"

text \<open>The test \<open>/^\d{4}-\d{2}-\d{2}$/\<close>.\<close>

definition isDigit :: "char \<Rightarrow> bool" where
  "isDigit c = (c \<in> set ''0123456789'')"

fun isSimpleDate :: "string \<Rightarrow> bool" where
  "isSimpleDate [y1, y2, y3, y4, d1, m1, m2, d2, a1, a2] =
     (isDigit y1 \<and> isDigit y2 \<and> isDigit y3 \<and> isDigit y4 \<and> d1 = CHR ''-''
      \<and> isDigit m1 \<and> isDigit m2 \<and> d2 = CHR ''-'' \<and> isDigit a1 \<and> isDigit a2)"
| "isSimpleDate s = False"

fun isString :: "jsval \<Rightarrow> bool" where
  "isString (JStr s) = True"
| "isString v = False"

fun isDateObject :: "jsval \<Rightarrow> bool" where
  "isDateObject (JDate r t) = True"
| "isDateObject v = False"

fun matchesSimpleDate :: "jsval \<Rightarrow> bool" where
  "matchesSimpleDate (JStr s) = isSimpleDate s"
| "matchesSimpleDate v = False"

definition getDateValueMatchingPattern :: "FieldPattern \<Rightarrow> world \<Rightarrow> jsval \<times> world" where
  "getDateValueMatchingPattern fieldPattern w =
     (let hasStringDates = list_ex isString (examples fieldPattern);
          hasDateObjects = list_ex isDateObject (examples fieldPattern)
      in if hasStringDates \<and> \<not> hasDateObjects then
           (let stringExamples = filter isString (examples fieldPattern);
                isSimpleDateFormat = list_ex matchesSimpleDate stringExamples;
                (t, w1) = readClock w
            in if isSimpleDateFormat then (JStr (beforeT (toISOString t)), w1)
               else (JStr (toISOString t), w1))
         else if hasDateObjects \<and> \<not> hasStringDates then newDate w
         else newDate w)"

text \<open>
  \<open>toLowerCase\<close> on the letters A to Z.  The result is compared with names in lower-case
  ASCII letters only, and no other character lower-cases to one of their letters.
\<close>

definition lowerChar :: "char \<Rightarrow> char" where
  "lowerChar c =
     (case map_of (zip ''ABCDEFGHIJKLMNOPQRSTUVWXYZ'' ''abcdefghijklmnopqrstuvwxyz'') c of
        Some l \<Rightarrow> l | None \<Rightarrow> c)"

definition toLowerCase :: "string \<Rightarrow> string" where
  "toLowerCase s = map lowerChar s"

definition dateLikeNames :: "string list" where
  "dateLikeNames =
     [''date'', ''publishedat'', ''publishdate'', ''created'', ''updatedat'', ''modified'',
      ''lastmod'']"

definition getDefaultValueForField :: "string \<Rightarrow> FieldPattern \<Rightarrow> world \<Rightarrow> jsval \<times> world" where
  "getDefaultValueForField name fieldPattern w =
     (let primaryType = (case types fieldPattern of [] \<Rightarrow> None | t # ts \<Rightarrow> Some t);
          lname = toLowerCase name
      in if lname = ''title'' then (JStr '''', w)
         else if lname \<in> set dateLikeNames then getDateValueMatchingPattern fieldPattern w
         else if lname = ''draft'' then (JBool True, w)
         else if lname = ''tags'' \<or> lname = ''categories'' then newArray w
         else if lname = ''author'' \<or> lname = ''description'' then (JStr '''', w)
         else if lname = ''published'' then (JBool False, w)
         else if primaryType = Some ''boolean'' then (JBool False, w)
         else if primaryType = Some ''number'' then (JNum 0, w)
         else if primaryType = Some ''array'' then newArray w
         else if primaryType = Some ''object'' then newObject w
         else (JStr '''', w))"

type_synonym template = "(string \<times> jsval) list"

text \<open>One round of either loop of \<open>generateTemplate\<close>.\<close>

definition addField :: "FieldPattern list \<Rightarrow> template \<times> world \<Rightarrow> string \<Rightarrow> template \<times> world" where
  "addField fs tw name =
     (case find (\<lambda>f. fieldName f = name) fs of
        None \<Rightarrow> tw
      | Some fieldPattern \<Rightarrow>
          if shouldSkipField name fieldPattern then tw
          else (let (v, w1) = getDefaultValueForField name fieldPattern (snd tw)
                in (map_set (fst tw) name v, w1)))"

definition generateTemplate :: "FrontmatterPattern \<Rightarrow> world \<Rightarrow> template \<times> world" where
  "generateTemplate pat w =
     (let tw1 = foldl (addField (commonFields pat)) ([], w) (requiredFields pat)
      in foldl (addField (commonFields pat)) tw1 (optionalFields pat))"

subsection \<open>Reading the content directory\<close>

text \<open>
  What the file system holds at the content path.  A listed file carries what reading and
  parsing it gives: an exception (from \<open>readFileSync\<close> or from the frontmatter parser), or the
  entries of the parsed data (none when the data is empty or absent).
\<close>

datatype parsed = Unparsable | Frontmatter sample

datatype fsEntry = Absent | RegularFile | Directory "(string \<times> parsed) list"

datatype fsError = ENOTDIR

record DetectionResult =
  pattern :: "FrontmatterPattern option"
  success :: bool
  message :: string
  suggestedTemplate :: "template option"

text \<open>\<open>path.extname\<close> of a file name: from its last dot, unless that dot comes first.\<close>

fun lastDot :: "string \<Rightarrow> nat option" where
  "lastDot [] = None"
| "lastDot (c # cs) =
     (case lastDot cs of
        Some i \<Rightarrow> Some (Suc i)
      | None \<Rightarrow> if c = CHR ''.'' then Some 0 else None)"

definition extname :: "string \<Rightarrow> string" where
  "extname file =
     (case lastDot file of
        None \<Rightarrow> ''''
      | Some i \<Rightarrow> if i = 0 \<or> file = ''..'' then '''' else drop i file)"

text \<open>\<open>xs.slice(0, n)\<close> for an integer \<open>n\<close>.\<close>

definition slice0 :: "'a list \<Rightarrow> int \<Rightarrow> 'a list" where
  "slice0 xs n = (if 0 \<le> n then take (nat n) xs else take (length xs - nat (- n)) xs)"

text \<open>The loop over the markdown files: a file that fails to read or parse is skipped.\<close>

fun collectSamples :: "(string \<times> parsed) list \<Rightarrow> sample list" where
  "collectSamples [] = []"
| "collectSamples ((file, Unparsable) # files) = collectSamples files"
| "collectSamples ((file, Frontmatter entries) # files) =
     (if length entries > 0 then entries # collectSamples files else collectSamples files)"

function showNat :: "nat \<Rightarrow> string" where
  "showNat n = (if n < 10 then [digitChar n] else showNat (n div 10) @ [digitChar n])"
  by pat_completeness auto
termination
  by (relation "measure id") auto

declare showNat.simps [simp del]

text \<open>\<open>Math.round\<close>: the nearest integer, a half going up.\<close>

definition mathRound :: "rat \<Rightarrow> int" where
  "mathRound x = \<lfloor>x + 1 / 2\<rfloor>"

definition detectFrontmatterPattern ::
  "world \<Rightarrow> (string \<Rightarrow> fsEntry) \<Rightarrow> string \<Rightarrow> int \<Rightarrow> fsError + DetectionResult" where
  "detectFrontmatterPattern w fs contentDir maxPosts =
     (case fs contentDir of
        Absent \<Rightarrow>
          Inr \<lparr>pattern = None, success = False,
               message = ''Directory not found: '' @ contentDir, suggestedTemplate = None\<rparr>
      | RegularFile \<Rightarrow> Inl ENOTDIR
      | Directory entries \<Rightarrow>
          (let markdownFiles = slice0 (filter (\<lambda>e. extname (fst e) = ''.md'') entries) maxPosts
           in if length markdownFiles = 0 then
                Inr \<lparr>pattern = None, success = False,
                     message = ''No markdown files found to analyze'', suggestedTemplate = None\<rparr>
              else
                (let frontmatterSamples = collectSamples markdownFiles
                 in if length frontmatterSamples = 0 then
                      Inr \<lparr>pattern = None, success = False,
                           message = ''No valid frontmatter found in existing posts'',
                           suggestedTemplate = None\<rparr>
                    else
                      (let pat = analyzeFrontmatterPatterns frontmatterSamples;
                           tmpl = fst (generateTemplate pat w)
                       in Inr \<lparr>pattern = Some pat, success = True,
                                message = ''Analyzed '' @ showNat (length frontmatterSamples)
                                   @ '' posts, confidence: ''
                                   @ showNat (nat (mathRound (confidence pat * 100))) @ ''%'',
                                suggestedTemplate = Some tmpl\<rparr>))))"

section \<open>Schema introspection (schema-introspection.ts)\<close>

datatype SchemaFieldType =
  string_type | number_type | boolean_type | date_type | array_type | object_type | image_type
  | unknown_type

text \<open>
  A schema field.  \<open>defaultValue\<close> is \<open>undefined\<close> when the field has no default, as in the
  source, where the test for a default is \<open>defaultValue !== undefined\<close>.
\<close>

record SchemaField =
  name :: string
  type :: SchemaFieldType
  required :: bool
  defaultValue :: jsval
  description :: "string option"

record SchemaAnalysis =
  schemaFields :: "SchemaField list"
  schemaRequiredFields :: "SchemaField list"
  schemaOptionalFields :: "SchemaField list"
  imageFields :: "SchemaField list"
  schemaSuccess :: bool
  schemaMessage :: string

subsection \<open>Runtime introspection of the schema object\<close>

text \<open>
  The runtime schema object, by its \<open>_def\<close>: the type name and, by type name, the inner type
  (\<open>innerType\<close>, \<open>schema\<close>, \<open>type\<close>), the shape, and the default value.  \<open>ZodOther\<close> stands for
  any other type name.
\<close>

datatype zodDef =
    ZodString
  | ZodNumber
  | ZodBoolean
  | ZodDate
  | ZodArray zodDef
  | ZodObject "(string \<times> zodDef) list"
  | ZodEffects zodDef
  | ZodOptional zodDef
  | ZodDefault jsval zodDef
  | ZodOther string

fun isZodFieldOptional :: "zodDef \<Rightarrow> bool" where
  "isZodFieldOptional (ZodOptional inner) = True"
| "isZodFieldOptional (ZodDefault v inner) = True"
| "isZodFieldOptional d = False"

text \<open>
  \<open>getZodFieldType\<close>: the optional wrapper, the default wrapper and the coercion wrapper are
  taken off in this order, each at most once, and the type name that is left decides.
\<close>

fun unwrapOptional :: "zodDef \<Rightarrow> zodDef" where
  "unwrapOptional (ZodOptional inner) = inner"
| "unwrapOptional d = d"

fun unwrapDefault :: "zodDef \<Rightarrow> jsval \<times> zodDef" where
  "unwrapDefault (ZodDefault v inner) = (v, inner)"
| "unwrapDefault d = (JUndefined, d)"

fun unwrapEffects :: "zodDef \<Rightarrow> zodDef" where
  "unwrapEffects (ZodEffects inner) = inner"
| "unwrapEffects d = d"

fun baseType :: "zodDef \<Rightarrow> SchemaFieldType" where
  "baseType ZodString = string_type"
| "baseType ZodNumber = number_type"
| "baseType ZodBoolean = boolean_type"
| "baseType ZodDate = date_type"
| "baseType (ZodArray elem) = array_type"
| "baseType (ZodObject shape) =
     (if map_has shape ''src'' \<and> map_has shape ''alt'' then image_type else object_type)"
| "baseType d = unknown_type"

definition getZodFieldType :: "zodDef \<Rightarrow> SchemaFieldType \<times> jsval" where
  "getZodFieldType fieldDef =
     (let baseDef1 = unwrapOptional fieldDef;
          (dv, baseDef2) = unwrapDefault baseDef1;
          baseDef3 = unwrapEffects baseDef2
      in (baseType baseDef3, dv))"

definition parseZodFieldDefinition :: "string \<Rightarrow> zodDef \<Rightarrow> SchemaField option" where
  "parseZodFieldDefinition fieldName' fieldDef =
     (let isOptional = isZodFieldOptional fieldDef;
          (t, dv) = getZodFieldType fieldDef
      in Some \<lparr>name = fieldName', type = t, required = \<not> isOptional, defaultValue = dv,
               description = None\<rparr>)"

definition extractFieldsFromZodShape :: "(string \<times> zodDef) list \<Rightarrow> SchemaField list" where
  "extractFieldsFromZodShape shape =
     List.map_filter (\<lambda>(fieldName', fieldDef). parseZodFieldDefinition fieldName' fieldDef) shape"

text \<open>
  The two results of an analysis: that of the handler, with the text of the error, and that of
  a successful extraction, with the three views of the fields.
\<close>

definition failedAnalysis :: "string \<Rightarrow> SchemaAnalysis" where
  "failedAnalysis err =
     \<lparr>schemaFields = [], schemaRequiredFields = [], schemaOptionalFields = [], imageFields = [],
      schemaSuccess = False, schemaMessage = ''Failed to analyze schema: '' @ err\<rparr>"

definition analysisOf :: "SchemaField list \<Rightarrow> string \<Rightarrow> SchemaAnalysis" where
  "analysisOf fs msg =
     \<lparr>schemaFields = fs,
      schemaRequiredFields = filter (\<lambda>field. required field) fs,
      schemaOptionalFields = filter (\<lambda>field. \<not> required field) fs,
      imageFields = filter (\<lambda>field. type field = image_type) fs,
      schemaSuccess = True, schemaMessage = msg\<rparr>"

subsection \<open>Evaluating the schema definition against the stand-in constructors\<close>

text \<open>
  The schema definition that \<open>extractAndExecuteZodSchema\<close> cuts out of the configuration text
  and runs with \<open>z\<close> bound to its stand-in object, as an expression: the constructor calls and
  the two chained modifiers.  A default is a literal.
\<close>

datatype zexpr =
    z_string
  | z_number
  | z_boolean
  | z_date
  | z_array zexpr
  | z_object "(string \<times> zexpr) list"
  | z_coerce_date
  | optional_of zexpr
  | default_of zexpr jsval

datatype evalError = RangeError | TypeError

text \<open>
  The value of an expression: its \<open>_def\<close>, and whether the object has the chaining methods.
  The members of an object literal are evaluated in order, a repeated key keeping its place and
  taking the later value.
  \<open>addChaining\<close> gives them to what a constructor returns; what \<open>optional()\<close> and
  \<open>default(v)\<close> return has none, so a further modifier on it is a call of \<open>undefined\<close>.
  The stand-in for \<open>z.coerce.date\<close> is replaced by a function that calls
  \<open>mockZ.coerce.date()\<close>, which by then is that function itself: the call never returns and
  ends in a stack overflow.
\<close>

fun evalMock :: "zexpr \<Rightarrow> evalError + (zodDef \<times> bool)"
  and evalShape :: "(string \<times> zexpr) list \<Rightarrow> (string \<times> zodDef) list
                    \<Rightarrow> evalError + (string \<times> zodDef) list" where
  "evalMock z_string = Inr (ZodString, True)"
| "evalMock z_number = Inr (ZodNumber, True)"
| "evalMock z_boolean = Inr (ZodBoolean, True)"
| "evalMock z_date = Inr (ZodDate, True)"
| "evalMock (z_array e) =
     (case evalMock e of Inl err \<Rightarrow> Inl err | Inr (d, chain) \<Rightarrow> Inr (ZodArray d, True))"
| "evalMock (z_object props) =
     (case evalShape props [] of
        Inl err \<Rightarrow> Inl err
      | Inr shape \<Rightarrow> Inr (ZodObject shape, True))"
| "evalMock z_coerce_date = Inl RangeError"
| "evalMock (optional_of e) =
     (case evalMock e of
        Inl err \<Rightarrow> Inl err
      | Inr (d, chain) \<Rightarrow> if chain then Inr (ZodOptional d, False) else Inl TypeError)"
| "evalMock (default_of e v) =
     (case evalMock e of
        Inl err \<Rightarrow> Inl err
      | Inr (d, chain) \<Rightarrow> if chain then Inr (ZodDefault v d, False) else Inl TypeError)"
| "evalShape [] acc = Inr acc"
| "evalShape ((k, e) # props) acc =
     (case evalMock e of
        Inl err \<Rightarrow> Inl err
      | Inr (d, chain) \<Rightarrow> evalShape props (map_set acc k d))"

text \<open>The text of the error in the message; that of a \<open>TypeError\<close> is abridged.\<close>

definition errorText :: "evalError \<Rightarrow> string" where
  "errorText err =
     (case err of
        RangeError \<Rightarrow> ''RangeError: Maximum call stack size exceeded''
      | TypeError \<Rightarrow> ''TypeError: not a function'')"

text \<open>
  \<open>analyzeSchemaFromConfig\<close>, from the schema definition found in the configuration text
  (\<open>None\<close> when the text holds none).
\<close>

definition analyzeSchemaFromConfig :: "zexpr option \<Rightarrow> SchemaAnalysis" where
  "analyzeSchemaFromConfig schemaDefinition =
     (case schemaDefinition of
        None \<Rightarrow>
          failedAnalysis
            ''Error: Failed to extract ZOD schema: Error: Could not find schema object definition''
      | Some e \<Rightarrow>
          (case evalMock e of
             Inl err \<Rightarrow> failedAnalysis (''Error: Failed to extract ZOD schema: '' @ errorText err)
           | Inr (ZodObject shape, chain) \<Rightarrow>
               (let fs = extractFieldsFromZodShape shape
                in analysisOf fs (''Successfully analyzed schema with '' @ showNat (length fs)
                                   @ '' fields using ZOD introspection''))
           | Inr (d, chain) \<Rightarrow>
               failedAnalysis ''Error: Schema does not have expected ZOD structure''))"

text \<open>What introspection reports of a runtime definition: type, required flag, default.\<close>

definition zodSummary :: "zodDef \<Rightarrow> SchemaFieldType \<times> bool \<times> jsval" where
  "zodSummary d = (fst (getZodFieldType d), \<not> isZodFieldOptional d, snd (getZodFieldType d))"



subsection \<open>The text-parsing fallback\<close>

text \<open>
  String operations of the source, on ASCII text: \<open>startsWith\<close>, \<open>includes\<close>, \<open>indexOf\<close>,
  \<open>substring\<close>, \<open>trim\<close>, and the replacement of the first occurrence of a string.
\<close>

fun startsWith :: "string \<Rightarrow> string \<Rightarrow> bool" where
  "startsWith s [] = True"
| "startsWith [] (p # ps) = False"
| "startsWith (c # cs) (p # ps) = (c = p \<and> startsWith cs ps)"

fun includesStr :: "string \<Rightarrow> string \<Rightarrow> bool" where
  "includesStr [] sub = startsWith [] sub"
| "includesStr (c # cs) sub = (startsWith (c # cs) sub \<or> includesStr cs sub)"

fun indexOf :: "string \<Rightarrow> string \<Rightarrow> nat option" where
  "indexOf [] sub = (if startsWith [] sub then Some 0 else None)"
| "indexOf (c # cs) sub =
     (if startsWith (c # cs) sub then Some 0
      else case indexOf cs sub of None \<Rightarrow> None | Some i \<Rightarrow> Some (Suc i))"

definition indexOfFrom :: "string \<Rightarrow> string \<Rightarrow> nat \<Rightarrow> nat option" where
  "indexOfFrom s sub pos =
     (case indexOf (drop pos s) sub of None \<Rightarrow> None | Some i \<Rightarrow> Some (pos + i))"

definition substring :: "string \<Rightarrow> nat \<Rightarrow> nat \<Rightarrow> string" where
  "substring s a b = take (max a b - min a b) (drop (min a b) s)"

definition isSpace :: "char \<Rightarrow> bool" where
  "isSpace c = (c \<in> set [CHR '' '', CHR 0x09, CHR 0x0A, CHR 0x0B, CHR 0x0C, CHR 0x0D])"

definition isLineTerminator :: "char \<Rightarrow> bool" where
  "isLineTerminator c = (c = CHR 0x0A \<or> c = CHR 0x0D)"

definition trim :: "string \<Rightarrow> string" where
  "trim s = rev (dropWhile isSpace (rev (dropWhile isSpace s)))"

fun replaceFirst :: "string \<Rightarrow> string \<Rightarrow> string" where
  "replaceFirst [] sub = []"
| "replaceFirst (c # cs) sub =
     (if sub \<noteq> [] \<and> startsWith (c # cs) sub then drop (length sub) (c # cs)
      else c # replaceFirst cs sub)"

text \<open>\<open>\w\<close>\<close>

definition isWordChar :: "char \<Rightarrow> bool" where
  "isWordChar c =
     (c \<in> set ''abcdefghijklmnopqrstuvwxyzABCDEFGHIJKLMNOPQRSTUVWXYZ0123456789_'')"

text \<open>
  \<open>cleanLine.match(/^(\w+):\s*(.+)$/)\<close> on a trimmed line: the longest run of word
  characters, a colon, white space, and the rest of the text, which must not be empty nor hold
  a line terminator.  The result is the two groups.
\<close>

definition matchField :: "string \<Rightarrow> (string \<times> string) option" where
  "matchField cleanLine =
     (let word = takeWhile isWordChar cleanLine;
          after = dropWhile isWordChar cleanLine
      in case after of
           [] \<Rightarrow> None
         | c # rest \<Rightarrow>
             (let definition' = dropWhile isSpace rest
              in if word \<noteq> [] \<and> c = CHR '':'' \<and> definition' \<noteq> []
                    \<and> \<not> list_ex isLineTerminator definition'
                 then Some (word, definition') else None))"

text \<open>
  The first match of \<open>/\.default\(([^)]*)\)/\<close> in a text: the text before it, the group, and
  the text after it.
\<close>

fun matchDefault :: "string \<Rightarrow> (string \<times> string \<times> string) option" where
  "matchDefault [] = None"
| "matchDefault (c # cs) =
     (if startsWith (c # cs) ''.default('' \<and> CHR '')'' \<in> set (drop 9 (c # cs))
      then Some ([], takeWhile (\<lambda>x. x \<noteq> CHR '')'') (drop 9 (c # cs)),
                 tl (dropWhile (\<lambda>x. x \<noteq> CHR '')'') (drop 9 (c # cs))))
      else case matchDefault cs of
             None \<Rightarrow> None
           | Some (before, grp, after) \<Rightarrow> Some (c # before, grp, after))"

text \<open>The same with \<open>[^)]+\<close>: the group must not be empty.\<close>

fun matchDefault1 :: "string \<Rightarrow> string option" where
  "matchDefault1 [] = None"
| "matchDefault1 (c # cs) =
     (if startsWith (c # cs) ''.default('' \<and> CHR '')'' \<in> set (drop 9 (c # cs))
         \<and> takeWhile (\<lambda>x. x \<noteq> CHR '')'') (drop 9 (c # cs)) \<noteq> []
      then Some (takeWhile (\<lambda>x. x \<noteq> CHR '')'') (drop 9 (c # cs)))
      else matchDefault1 cs)"

text \<open>\<open>parseInt\<close> of a run of decimal digits.\<close>

definition digitValue :: "char \<Rightarrow> nat" where
  "digitValue c = (case indexOf ''0123456789'' [c] of Some i \<Rightarrow> i | None \<Rightarrow> 0)"

definition parseInt :: "string \<Rightarrow> nat" where
  "parseInt s = foldl (\<lambda>n c. 10 * n + digitValue c) 0 s"

text \<open>
  The default value read from the group.  \<open>JSON.parse\<close> is a parameter: \<open>None\<close> when it throws,
  and then the default is the text of the group.
\<close>

definition parseDefault :: "(string \<Rightarrow> jsval option) \<Rightarrow> string \<Rightarrow> jsval" where
  "parseDefault jsonParse defaultStr =
     (if defaultStr = ''true'' \<or> defaultStr = ''false'' then JBool (defaultStr = ''true'')
      else if defaultStr \<noteq> [] \<and> list_all isDigit defaultStr then JNum (of_nat (parseInt defaultStr))
      else if 2 \<le> length defaultStr \<and> hd defaultStr = CHR ''['' \<and> last defaultStr = CHR '']''
              \<and> \<not> list_ex isLineTerminator defaultStr
           then (case jsonParse defaultStr of Some v \<Rightarrow> v | None \<Rightarrow> JStr defaultStr)
      else if defaultStr \<noteq> [] \<and> hd defaultStr = CHR 0x22 \<and> last defaultStr = CHR 0x22
           then JStr (butlast (tl defaultStr))
      else JUndefined)"

definition parseFieldType ::
  "(string \<Rightarrow> jsval option) \<Rightarrow> string \<Rightarrow> SchemaFieldType \<times> jsval" where
  "parseFieldType jsonParse definition' =
     (let withoutOptional = replaceFirst definition' ''.optional()'';
          baseDefinition = (case matchDefault withoutOptional of
                              None \<Rightarrow> withoutOptional
                            | Some (before, grp, after) \<Rightarrow> before @ after);
          dv = (case matchDefault1 definition' of
                  None \<Rightarrow> JUndefined
                | Some defaultStr \<Rightarrow> parseDefault jsonParse defaultStr)
      in if includesStr baseDefinition ''z.string()'' then (string_type, dv)
         else if includesStr baseDefinition ''z.number()'' then (number_type, dv)
         else if includesStr baseDefinition ''z.boolean()'' then (boolean_type, dv)
         else if includesStr baseDefinition ''z.date()''
                 \<or> includesStr baseDefinition ''z.coerce.date()'' then (date_type, dv)
         else if includesStr baseDefinition ''z.array('' then (array_type, dv)
         else if includesStr baseDefinition ''image()'' then (image_type, dv)
         else if includesStr baseDefinition ''z.object('' then
           (if includesStr baseDefinition ''src:'' \<and> includesStr baseDefinition ''alt:''
            then (image_type, dv) else (object_type, dv))
         else (unknown_type, dv))"

text \<open>
  \<open>fieldLine.match(/\/\/\s*(.+)$/)\<close>, trimmed: the first \<open>//\<close> that white space and a
  rest without line terminator follow, the rest being the text after the white space or,
  when there is none, the last white space character.
\<close>

fun extractFieldDescription :: "string \<Rightarrow> string option" where
  "extractFieldDescription [] = None"
| "extractFieldDescription (c # cs) =
     (let r = drop 2 (c # cs); remainder = dropWhile isSpace r
      in if startsWith (c # cs) ''//'' \<and> remainder \<noteq> []
            \<and> \<not> list_ex isLineTerminator remainder
         then Some (trim remainder)
         else if startsWith (c # cs) ''//'' \<and> remainder = [] \<and> r \<noteq> []
                 \<and> \<not> isLineTerminator (last r)
         then Some []
         else extractFieldDescription cs)"

text \<open>\<open>fieldLine.replace(/,$/, '')\<close>\<close>

definition dropTrailingComma :: "string \<Rightarrow> string" where
  "dropTrailingComma s = (if s \<noteq> [] \<and> last s = CHR '','' then butlast s else s)"

definition parseSchemaField :: "(string \<Rightarrow> jsval option) \<Rightarrow> string \<Rightarrow> SchemaField option" where
  "parseSchemaField jsonParse fieldLine =
     (let cleanLine = trim (dropTrailingComma fieldLine)
      in case matchField cleanLine of
           None \<Rightarrow> None
         | Some (fieldName', fieldDefinition) \<Rightarrow>
             (let isOptional = includesStr fieldDefinition ''.optional()'';
                  (t, dv) = parseFieldType jsonParse fieldDefinition
              in Some \<lparr>name = fieldName', type = t, required = \<not> isOptional, defaultValue = dv,
                       description = extractFieldDescription fieldLine\<rparr>))"

text \<open>
  The state of the loop of \<open>parseSchemaLines\<close>: the lines closed so far, the current line, the
  brace count, the string that the scan is in (if any), and the character before.
\<close>

record lineScan =
  closedLines :: "string list"
  currentLine :: string
  braceCount :: int
  stringChar :: "char option"
  previous :: "char option"

definition scanChar :: "lineScan \<Rightarrow> char \<Rightarrow> lineScan" where
  "scanChar st c =
     (let sc = (if stringChar st = None \<and> (c = CHR 0x22 \<or> c = CHR 0x27) then Some c
                else if stringChar st = Some c \<and> previous st \<noteq> Some (CHR 0x5C) then None
                else stringChar st);
          bc = (if sc = None
                then (if c = CHR ''{'' then braceCount st + 1
                      else if c = CHR ''}'' then braceCount st - 1 else braceCount st)
                else braceCount st);
          line = currentLine st @ [c]
      in if sc = None \<and> c = CHR '','' \<and> bc = 0
         then st\<lparr>closedLines := closedLines st @ [trim line], currentLine := [],
                 braceCount := bc, stringChar := sc, previous := Some c\<rparr>
         else st\<lparr>currentLine := line, braceCount := bc, stringChar := sc, previous := Some c\<rparr>)"

definition parseSchemaLines :: "string \<Rightarrow> string list" where
  "parseSchemaLines schemaBody =
     (let st = foldl scanChar
                 \<lparr>closedLines = [], currentLine = [], braceCount = 0, stringChar = None,
                  previous = None\<rparr> schemaBody
      in if trim (currentLine st) \<noteq> [] then closedLines st @ [trim (currentLine st)]
         else closedLines st)"

text \<open>
  The brace-matching loop of \<open>extractSchemaFields\<close>, from index \<open>i\<close> on: the brace count at the
  end, and the index of the brace that closed the first one (if the loop met it).
\<close>

fun matchBrace :: "string \<Rightarrow> int \<Rightarrow> nat \<Rightarrow> int \<times> nat option" where
  "matchBrace [] bc i = (bc, None)"
| "matchBrace (c # cs) bc i =
     (if c = CHR ''{'' then matchBrace cs (bc + 1) (Suc i)
      else if c = CHR ''}'' then
        (if bc - 1 = 0 then (0, Some i) else matchBrace cs (bc - 1) (Suc i))
      else matchBrace cs bc (Suc i))"

datatype textError = NoSchema | NoSchemaObject | UnmatchedBraces

definition extractSchemaFields ::
  "(string \<Rightarrow> jsval option) \<Rightarrow> string \<Rightarrow> textError + SchemaField list" where
  "extractSchemaFields jsonParse schemaContent =
     (case indexOf schemaContent ''schema:'' of
        None \<Rightarrow> Inl NoSchema
      | Some schemaStart \<Rightarrow>
          (case indexOfFrom schemaContent ''z.object({'' schemaStart of
             None \<Rightarrow> Inl NoSchemaObject
           | Some objectStart \<Rightarrow>
               (let start = objectStart + 9;
                    (bc, closing) = matchBrace (drop start schemaContent) 0 start
                in if bc \<noteq> 0 then Inl UnmatchedBraces
                   else
                     (let end' = (case closing of Some i \<Rightarrow> i | None \<Rightarrow> start);
                          schemaBody = substring schemaContent (start + 1) end';
                          kept = filter (\<lambda>line. trim line \<noteq> [] \<and> trim line \<noteq> '',''
                                            \<and> \<not> startsWith (trim line) ''//'')
                                   (parseSchemaLines schemaBody)
                      in Inr (List.map_filter (\<lambda>line. parseSchemaField jsonParse (trim line))
                                kept)))))"

definition analyzeSchema :: "(string \<Rightarrow> jsval option) \<Rightarrow> string \<Rightarrow> SchemaAnalysis" where
  "analyzeSchema jsonParse schemaContent =
     (case extractSchemaFields jsonParse schemaContent of
        Inl NoSchema \<Rightarrow> failedAnalysis ''Error: Could not find schema definition''
      | Inl NoSchemaObject \<Rightarrow> failedAnalysis ''Error: Could not find schema object definition''
      | Inl UnmatchedBraces \<Rightarrow> failedAnalysis ''Error: Unmatched braces in schema definition''
      | Inr fs \<Rightarrow>
          analysisOf fs (''Successfully analyzed schema with '' @ showNat (length fs)
                          @ '' fields''))"

section \<open>The JSON-schema projection (astro-schema-analyzer.ts)\<close>

text \<open>
  The JSON schema that the converter gives for a collection, by the members that the analyzer
  reads.  A member that is absent is \<open>None\<close> (\<open>undefined\<close> for the default).
\<close>

datatype jsonSchema =
  JsonSchema
    (schema_type: "string option")
    (schema_format: "string option")
    (schema_properties: "(string \<times> jsonSchema) list option")
    (schema_items: "jsonSchema option")
    (schema_default: jsval)
    (schema_required: "string list option")
    (schema_description: "string option")
    (schema_ref: "string option")
    (schema_definitions: "(string \<times> jsonSchema) list option")

record AstroCollectionField = SchemaField +
  items :: "SchemaFieldType option"

text \<open>Whether \<open>schema.properties?.key\<close> is there.\<close>

definition hasProperty :: "jsonSchema \<Rightarrow> string \<Rightarrow> bool" where
  "hasProperty schema key =
     (case schema_properties schema of None \<Rightarrow> False | Some props \<Rightarrow> map_has props key)"

definition mapJsonSchemaType :: "jsonSchema \<Rightarrow> SchemaFieldType" where
  "mapJsonSchemaType schema =
     (case schema_type schema of
        None \<Rightarrow> unknown_type
      | Some t \<Rightarrow>
          if t = [] then unknown_type
          else if t = ''string'' then
            (if schema_format schema = Some ''date'' \<or> schema_format schema = Some ''date-time''
             then date_type
             else if schema_properties schema \<noteq> None
                     \<and> (hasProperty schema ''src'' \<or> hasProperty schema ''url'')
             then image_type
             else string_type)
          else if t = ''number'' \<or> t = ''integer'' then number_type
          else if t = ''boolean'' then boolean_type
          else if t = ''array'' then array_type
          else if t = ''object'' then
            (if hasProperty schema ''src'' \<and> hasProperty schema ''alt'' then image_type
             else object_type)
          else unknown_type)"

definition parseJsonSchemaField ::
  "string \<Rightarrow> jsonSchema \<Rightarrow> bool \<Rightarrow> AstroCollectionField option" where
  "parseJsonSchemaField fieldName' schema isRequired =
     (let dv = schema_default schema;
          t = mapJsonSchemaType schema;
          its = (if t = array_type
                 then (case schema_items schema of
                         None \<Rightarrow> None | Some s \<Rightarrow> Some (mapJsonSchemaType s))
                 else None)
      in Some \<lparr>name = fieldName', type = t, required = isRequired, defaultValue = dv,
               description = schema_description schema, items = its\<rparr>)"

definition extractFieldsFromJsonSchema :: "jsonSchema \<Rightarrow> AstroCollectionField list" where
  "extractFieldsFromJsonSchema jsonSchema' =
     (let resolved =
            (case (schema_ref jsonSchema', schema_definitions jsonSchema') of
               (Some ref, Some defs) \<Rightarrow>
                 if ref = [] then Some jsonSchema'
                 else map_get defs (replaceFirst ref ''#/definitions/'')
             | other \<Rightarrow> Some jsonSchema')
      in case resolved of
           None \<Rightarrow> []
         | Some schema \<Rightarrow>
             (case schema_properties schema of
                None \<Rightarrow> []
              | Some props \<Rightarrow>
                  (let requiredNames = (case schema_required schema of None \<Rightarrow> [] | Some r \<Rightarrow> r)
                   in List.map_filter
                        (\<lambda>(fieldName', fieldSchema).
                           parseJsonSchemaField fieldName' fieldSchema (fieldName' \<in> set requiredNames))
                        props)))"

section \<open>Choosing between the pattern and the framework (index.ts)\<close>

record FrameworkInfo =
  frameworkName :: string
  frameworkConfidence :: rat

text \<open>
  The schema analysis handed to \<open>detectSchemaConflicts\<close>, which reads it untyped: its
  \<open>success\<close> flag and its \<open>fields\<close>, if it has any.
\<close>

record AnySchemaAnalysis =
  analysisSuccess :: bool
  analysisFields :: "SchemaField list option"

record FrameworkDetectionResult =
  primary :: "FrameworkInfo option"
  schemaAnalysis :: "AnySchemaAnalysis option"

fun detectSchemaConflictsLoop :: "template \<Rightarrow> SchemaField list \<Rightarrow> bool" where
  "detectSchemaConflictsLoop [] fs = False"
| "detectSchemaConflictsLoop ((fieldName', v) # rest) fs =
     (case find (\<lambda>f. name f = fieldName') fs of
        None \<Rightarrow> detectSchemaConflictsLoop rest fs
      | Some schemaField \<Rightarrow>
          if type schemaField = image_type \<and> \<not> required schemaField \<and> isEmptyObject v then True
          else if type schemaField = object_type \<and> \<not> required schemaField \<and> isEmptyObject v
          then True
          else detectSchemaConflictsLoop rest fs)"

definition detectSchemaConflicts :: "template \<Rightarrow> AnySchemaAnalysis \<Rightarrow> bool" where
  "detectSchemaConflicts patternTemplate analysis =
     (case analysisFields analysis of
        None \<Rightarrow> False
      | Some fs \<Rightarrow> detectSchemaConflictsLoop patternTemplate fs)"

definition shouldPreferFrameworkOverPattern ::
  "DetectionResult \<Rightarrow> FrameworkDetectionResult \<Rightarrow> bool" where
  "shouldPreferFrameworkOverPattern patternDetection frameworkDetection =
     (case primary frameworkDetection of
        None \<Rightarrow> False
      | Some fw \<Rightarrow>
          (case (success patternDetection, suggestedTemplate patternDetection) of
             (True, Some tmpl) \<Rightarrow>
               if (case schemaAnalysis frameworkDetection of
                     None \<Rightarrow> False
                   | Some analysis \<Rightarrow> analysisSuccess analysis \<and> detectSchemaConflicts tmpl analysis)
               then True
               else
                 (case pattern patternDetection of
                    None \<Rightarrow> False
                  | Some pat \<Rightarrow>
                      if confidence pat \<noteq> 0 \<and> frameworkConfidence fw \<noteq> 0
                      then (if confidence pat < 7 / 10 \<and> frameworkConfidence fw > 8 / 10
                            then True else False)
                      else False)
           | other \<Rightarrow> True))"

section \<open>Example inputs\<close>

text \<open>Six posts: a title in each, a date in five, tags in three, a legacy flag in one.\<close>

definition sixPosts :: "sample list" where
  "sixPosts =
     [[(''title'', JStr ''One''), (''date'', JStr ''2025-01-01''), (''tags'', JArr 0 [])],
      [(''title'', JStr ''Two''), (''date'', JStr ''2025-01-02''), (''legacy'', JBool True)],
      [(''title'', JStr ''Three''), (''date'', JStr ''2025-01-03''), (''tags'', JArr 1 [])],
      [(''title'', JStr ''Four''), (''date'', JStr ''2025-01-04'')],
      [(''title'', JStr ''Five''), (''date'', JStr ''2025-01-05''), (''tags'', JArr 2 [])],
      [(''title'', JStr ''Six'')]]"


text \<open>Two posts with the same fields, and three further posts with these fields.\<close>

definition twoPosts :: "sample list" where
  "twoPosts =
     [[(''title'', JStr ''One''), (''date'', JStr ''2025-01-01'')],
      [(''title'', JStr ''Two''), (''date'', JStr ''2025-01-02'')]]"

definition threeMore :: "sample list" where
  "threeMore =
     [[(''date'', JStr ''2025-01-03''), (''title'', JStr ''Three'')],
      [(''title'', JStr ''Four''), (''date'', JStr ''2025-01-04'')],
      [(''title'', JStr ''Five''), (''date'', JStr ''2025-01-05'')]]"

text \<open>A clock that reads 3 November 2026, 09:30:15.250 UTC, and three date fields.\<close>

definition today :: instant where
  "today = \<lparr>year = 2026, month = 11, day = 3, hours = 9, minutes = 30, seconds = 15, millis = 250\<rparr>"

definition world0 :: world where
  "world0 = \<lparr>clock = (\<lambda>i. today), reads = 0, nextRef = 100\<rparr>"




text \<open>
  A content directory with one well-formed post and one post whose frontmatter does not parse,
  beside a text file; every other path is absent, but for one regular file.
\<close>

definition blogDir :: "string \<Rightarrow> fsEntry" where
  "blogDir path =
     (if path = ''src/content/blog'' then
        Directory [(''valid.md'', Frontmatter [(''title'', JStr ''Valid Post''),
                                               (''date'', JStr ''2025-01-01'')]),
                   (''notes.txt'', Unparsable),
                   (''malformed.md'', Unparsable)]
      else if path = ''README.md'' then RegularFile
      else Absent)"

text \<open>An image object with a caption beside its source and its alternative text.\<close>

definition captionedImage :: "(string \<times> zodDef) list" where
  "captionedImage = [(''src'', ZodString), (''alt'', ZodString), (''caption'', ZodString)]"

definition captionedImageJson :: jsonSchema where
  "captionedImageJson =
     JsonSchema (Some ''object'') None
       (Some [(''src'', JsonSchema (Some ''string'') None None None JUndefined None None None None),
              (''alt'', JsonSchema (Some ''string'') None None None JUndefined None None None None),
              (''caption'', JsonSchema (Some ''string'') None None None JUndefined None None None None)])
       None JUndefined (Some [''src'', ''alt'', ''caption'']) None None None"

text \<open>
  A schema with a plain string, a plain number, a plain boolean, a coerced date, an array of
  strings with default \<open>[]\<close> and a boolean with default \<open>false\<close>: as the expression of the
  configuration text, as the runtime shape that the stand-ins declare for it, as configuration
  text, and as the JSON schema of the converter.
\<close>

definition sixFieldExpr :: zexpr where
  "sixFieldExpr =
     z_object [(''title'', z_string), (''order'', z_number), (''featured'', z_boolean),
               (''date'', z_coerce_date), (''tags'', default_of (z_array z_string) (JArr 1 [])),
               (''draft'', default_of z_boolean (JBool False))]"

definition sixFieldShape :: "(string \<times> zodDef) list" where
  "sixFieldShape =
     [(''title'', ZodString), (''order'', ZodNumber), (''featured'', ZodBoolean),
      (''date'', ZodEffects ZodDate), (''tags'', ZodDefault (JArr 1 []) (ZodArray ZodString)),
      (''draft'', ZodDefault (JBool False) ZodBoolean)]"

definition sixFieldConfig :: string where
  "sixFieldConfig =
     ''const blog = defineCollection({ schema: z.object({ title: z.string(), ''
     @ ''order: z.number(), featured: z.boolean(), date: z.coerce.date(), ''
     @ ''tags: z.array(z.string()).default([]), draft: z.boolean().default(false), }), });''"

definition plainJson :: "string \<Rightarrow> jsonSchema" where
  "plainJson t = JsonSchema (Some t) None None None JUndefined None None None None"

definition sixFieldJson :: "string list \<Rightarrow> jsval \<Rightarrow> jsonSchema" where
  "sixFieldJson names emptyArray =
     JsonSchema (Some ''object'') None
       (Some (zip names
          [plainJson ''string'', plainJson ''number'', plainJson ''boolean'',
           JsonSchema (Some ''string'') (Some ''date-time'') None None JUndefined None None None None,
           JsonSchema (Some ''array'') None None (Some (plainJson ''string'')) emptyArray None None
             None None,
           JsonSchema (Some ''boolean'') None None None (JBool False) None None None None]))
       None JUndefined (Some (take 4 names)) None None None"

text \<open>
  A content directory of two posts with a title, an author and tags, and two results of
  framework detection: a framework at confidence 0.9 and one at 0.5, without schema analysis.
\<close>

definition steadyDir :: "string \<Rightarrow> fsEntry" where
  "steadyDir path =
     (if path = ''posts'' then
        Directory [(''a.md'', Frontmatter [(''title'', JStr ''A''), (''author'', JStr ''Ann''),
                                           (''tags'', JArr 1 [JStr ''x''])]),
                   (''b.md'', Frontmatter [(''title'', JStr ''B''), (''author'', JStr ''Bob''),
                                           (''tags'', JArr 2 [JStr ''y''])])]
      else Absent)"

definition framework :: "rat \<Rightarrow> FrameworkDetectionResult" where
  "framework c =
     \<lparr>primary = Some \<lparr>frameworkName = ''Astro'', frameworkConfidence = c\<rparr>,
      schemaAnalysis = None\<rparr>"


section \<open>Properties of pattern detection\<close>

lemma map_has_iff: "map_has m k \<longleftrightarrow> k \<in> set (map fst m)"
  by (induction m) auto

lemma map_get_None_iff: "map_get m k = None \<longleftrightarrow> k \<notin> set (map fst m)"
  by (induction m) (force split: if_splits)+

lemma map_get_in: "map_get m k = Some p \<Longrightarrow> (k, p) \<in> set m"
  by (induction m) (auto split: if_splits)

lemma in_map_get: "distinct (map fst m) \<Longrightarrow> (k, p) \<in> set m \<Longrightarrow> map_get m k = Some p"
  by (induction m) (auto simp: rev_image_eqI)

lemma keys_map_set:
  "map fst (map_set m k p) = (if k \<in> set (map fst m) then map fst m else map fst m @ [k])"
  by (induction m) force+

lemma map_get_map_set: "map_get (map_set m k p) k' = (if k' = k then Some p else map_get m k')"
  by (induction m) auto

lemma distinct_map_set: "distinct (map fst m) \<Longrightarrow> distinct (map fst (map_set m k p))"
  by (simp add: keys_map_set)

lemma counted_Nil: "counted [] []"
  by (simp add: counted_def)

lemma observe_keys:
  "map fst (observe m e) = (if fst e \<in> set (map fst m) then map fst m else map fst m @ [fst e])"
  by (auto simp: observe_def Let_def keys_map_set map_has_iff map_get_map_set
      split: option.splits)

lemma counted_observe:
  assumes "counted m es"
  shows "counted (observe m e) (es @ [e])"
proof -
  obtain k v where e: "e = (k, v)" by (cases e)
  let ?m1 = "if \<not> map_has m k
             then map_set m k \<lparr>fieldName = k, frequency = 0, types = [], examples = []\<rparr> else m"
  have d: "distinct (map fst m)" and ks: "set (map fst m) = set (map fst es)"
    and fr: "\<And>k p. map_get m k = Some p \<Longrightarrow>
        fieldName p = k \<and> frequency p = of_nat (occurrences k es)"
    using assms by (auto simp: counted_def)
  have "map_get ?m1 k \<noteq> None"
    by (cases "map_has m k") (simp_all add: map_get_map_set map_has_iff map_get_None_iff)
  then obtain p where p: "map_get ?m1 k = Some p"
    by blast
  have pk: "fieldName p = k \<and> frequency p = of_nat (occurrences k es)"
  proof (cases "map_has m k")
    case True
    then show ?thesis using p fr by simp
  next
    case False
    then have "k \<notin> set (map fst es)" using ks by (simp add: map_has_iff)
    then have "occurrences k es = 0" by (auto simp: occurrences_def filter_empty_conv)
    with False p show ?thesis by (auto simp: map_get_map_set)
  qed
  obtain p3 where ob: "observe m e = map_set ?m1 k p3"
    and p3: "fieldName p3 = fieldName p" "frequency p3 = frequency p + 1"
    using p by (auto simp: observe_def e Let_def)
  have other: "\<And>k'. k' \<noteq> k \<Longrightarrow> map_get (observe m e) k' = map_get m k'"
    by (simp add: ob map_get_map_set)
  have occ: "\<And>k'. occurrences k' (es @ [e]) = (if k' = k then Suc (occurrences k' es) else occurrences k' es)"
    by (auto simp: occurrences_def e)
  show ?thesis
    unfolding counted_def
  proof (intro conjI allI impI)
    show "distinct (map fst (observe m e))"
      using d by (simp add: observe_keys)
    show "set (map fst (observe m e)) = set (map fst (es @ [e]))"
      using ks by (auto simp: observe_keys e)
  next
    fix k' q assume q: "map_get (observe m e) k' = Some q"
    show "fieldName q = k'"
    proof (cases "k' = k")
      case True then show ?thesis using q ob p3 pk by (simp add: map_get_map_set)
    next
      case False then show ?thesis using q other fr by simp
    qed
    show "frequency q = of_nat (occurrences k' (es @ [e]))"
    proof (cases "k' = k")
      case True then show ?thesis using q ob p3 pk occ by (simp add: map_get_map_set)
    next
      case False then show ?thesis using q other fr occ by simp
    qed
  qed
qed

lemma counted_foldl: "counted m es \<Longrightarrow> counted (foldl observe m es') (es @ es')"
proof (induction es' arbitrary: m es)
  case Nil then show ?case by simp
next
  case (Cons e es')
  from counted_observe[OF Cons.prems, of e] Cons.IH[of "observe m e" "es @ [e]"]
  show ?case by simp
qed

lemma foldl_nested: "foldl (\<lambda>m sample. foldl observe m sample) m samples = foldl observe m (concat samples)"
  by (induction samples arbitrary: m) auto

lemma counted_countFields: "counted (countFields samples) (concat samples)"
  using counted_foldl[OF counted_Nil, of "concat samples"]
  by (simp add: countFields_def foldl_nested)

lemma categorize_eq:
  "categorize fs (req, opt, rare) =
     (req @ map fieldName (filter (\<lambda>f. frequency f \<ge> 8 / 10) fs),
      opt @ map fieldName (filter (\<lambda>f. \<not> frequency f \<ge> 8 / 10 \<and> frequency f \<ge> 2 / 10) fs),
      rare @ map fieldName (filter (\<lambda>f. \<not> frequency f \<ge> 8 / 10 \<and> \<not> frequency f \<ge> 2 / 10) fs))"
  by (induction fs arbitrary: req opt rare) auto

lemma occurrences_distinct:
  "distinct (map fst s) \<Longrightarrow> occurrences k s = (if hasField k s then 1 else 0)"
proof (induction s)
  case Nil then show ?case by (simp add: occurrences_def hasField_def)
next
  case (Cons e s)
  then show ?case by (auto simp: occurrences_def hasField_def filter_empty_conv image_iff)
qed

lemma occurrences_append: "occurrences k (xs @ ys) = occurrences k xs + occurrences k ys"
  by (simp add: occurrences_def)

lemma occurrences_concat:
  "wellFormed samples \<Longrightarrow> occurrences k (concat samples) = length (filter (hasField k) samples)"
proof (induction samples)
  case Nil then show ?case by (simp add: occurrences_def)
next
  case (Cons s samples)
  then show ?case by (simp add: wellFormed_def occurrences_append occurrences_distinct)
qed

lemma normalize_keys: "map fst (normalizeFrequencies n m) = map fst m"
  by (induction m) (auto simp: normalizeFrequencies_def)

lemma counted_fieldName: "counted m es \<Longrightarrow> (k, p) \<in> set m \<Longrightarrow> fieldName p = k \<and> frequency p = of_nat (occurrences k es)"
  by (auto simp: counted_def dest: in_map_get)

lemma counted_names: "counted m es \<Longrightarrow> map (fieldName \<circ> snd) m = map fst m"
  by (auto dest: counted_fieldName)

lemma commonFields_names:
  "map fieldName (commonFields (analyzeFrontmatterPatterns samples)) = map fst (countFields samples)"
proof -
  have "map fieldName (map snd (normalizeFrequencies n m)) = map (fieldName \<circ> snd) m" for n m
    by (induction m) (auto simp: normalizeFrequencies_def)
  then show ?thesis
    using counted_names[OF counted_countFields, of samples]
    by (simp add: analyzeFrontmatterPatterns_def Let_def)
qed

lemma commonFields_distinct:
  "distinct (map fieldName (commonFields (analyzeFrontmatterPatterns samples)))"
  using counted_countFields[of samples] by (simp add: commonFields_names counted_def)

lemma commonFields_set:
  "set (map fieldName (commonFields (analyzeFrontmatterPatterns samples))) = set (fieldNames samples)"
  using counted_countFields[of samples] by (simp add: commonFields_names counted_def fieldNames_def)

lemma commonFields_frequency:
  assumes "wellFormed samples" and "f \<in> set (commonFields (analyzeFrontmatterPatterns samples))"
  shows "frequency f = frequencyOf (fieldName f) samples"
proof -
  from assms(2) obtain k p where kp: "(k, p) \<in> set (countFields samples)"
    and f: "f = p\<lparr>frequency := frequency p / of_nat (length samples)\<rparr>"
    by (auto simp: analyzeFrontmatterPatterns_def Let_def normalizeFrequencies_def)
  from counted_fieldName[OF counted_countFields kp]
  show ?thesis using assms(1) by (simp add: f frequencyOf_def occurrences_concat)
qed


lemma tiers_eq:
  "requiredFields (analyzeFrontmatterPatterns samples) =
     map fieldName (filter (\<lambda>f. frequency f \<ge> 8 / 10) (commonFields (analyzeFrontmatterPatterns samples)))"
  "optionalFields (analyzeFrontmatterPatterns samples) =
     map fieldName (filter (\<lambda>f. \<not> frequency f \<ge> 8 / 10 \<and> frequency f \<ge> 2 / 10) (commonFields (analyzeFrontmatterPatterns samples)))"
  "rareFields (analyzeFrontmatterPatterns samples) =
     map fieldName (filter (\<lambda>f. \<not> frequency f \<ge> 8 / 10 \<and> \<not> frequency f \<ge> 2 / 10) (commonFields (analyzeFrontmatterPatterns samples)))"
  by (simp_all add: analyzeFrontmatterPatterns_def Let_def categorize_eq)

lemma distinct_three_filters:
  assumes "distinct (map g xs)" and "\<And>x. \<not> (P x \<and> Q x)" and "\<And>x. \<not> (P x \<and> R x)" and "\<And>x. \<not> (Q x \<and> R x)"
  shows "distinct (map g (filter P xs) @ map g (filter Q xs) @ map g (filter R xs))"
  using assms(1)
proof (induction xs)
  case Nil then show ?case by simp
next
  case (Cons x xs)
  then have nx: "g x \<notin> g ` set xs" and IH: "distinct (map g (filter P xs) @ map g (filter Q xs) @ map g (filter R xs))"
    by auto
  from nx have "\<And>S. g x \<notin> g ` {y \<in> set xs. S y}" by auto
  with IH show ?case using assms(2-4)[of x] by auto
qed



lemma list_ex_names3:
  "list_ex (\<lambda>f. (fieldName f = a \<or> fieldName f = b \<or> fieldName f = c) \<and> P f) fs
   \<longleftrightarrow> list_ex (\<lambda>f. fieldName f = a \<and> P f) fs \<or> list_ex (\<lambda>f. fieldName f = b \<and> P f) fs
        \<or> list_ex (\<lambda>f. fieldName f = c \<and> P f) fs"
  by (auto simp: list_ex_iff)



lemma confidence_analyze:
  "confidence (analyzeFrontmatterPatterns samples)
   = calculateConfidence (commonFields (analyzeFrontmatterPatterns samples)) (length samples)"
  by (simp add: analyzeFrontmatterPatterns_def Let_def)

lemma calculateConfidence_bounds:
  "calculateConfidence fs n = 5 / 10 \<or> (6 / 10 \<le> calculateConfidence fs n \<and> calculateConfidence fs n \<le> 1)"
  by (simp add: calculateConfidence_def Let_def min_def)

lemma calculateConfidence_few: "n < 2 \<Longrightarrow> calculateConfidence fs n = 5 / 10"
  by (simp add: calculateConfidence_def)

lemma sixPosts_wellFormed: "wellFormed sixPosts"
  by (simp add: sixPosts_def wellFormed_def)

lemma sixPosts_names: "set (fieldNames sixPosts) = {''title'', ''date'', ''tags'', ''legacy''}"
  by (auto simp: sixPosts_def fieldNames_def)

lemma sixPosts_freq:
  "frequencyOf ''title'' sixPosts = 1" "frequencyOf ''date'' sixPosts = 5 / 6"
  "frequencyOf ''tags'' sixPosts = 1 / 2" "frequencyOf ''legacy'' sixPosts = 1 / 6"
  "frequencyOf ''publishedAt'' sixPosts = 0" "frequencyOf ''publishDate'' sixPosts = 0"
  by (simp_all add: sixPosts_def frequencyOf_def hasField_def)



lemma commonFields_occurrences:
  assumes "f \<in> set (commonFields (analyzeFrontmatterPatterns samples))"
  shows "frequency f = of_nat (occurrences (fieldName f) (concat samples)) / of_nat (length samples)"
proof -
  from assms obtain k p where kp: "(k, p) \<in> set (countFields samples)"
    and f: "f = p\<lparr>frequency := frequency p / of_nat (length samples)\<rparr>"
    by (auto simp: analyzeFrontmatterPatterns_def Let_def normalizeFrequencies_def)
  from counted_fieldName[OF counted_countFields kp]
  show ?thesis by (simp add: f)
qed

lemma occurrences_present: "k \<in> set (map fst s) \<Longrightarrow> 1 \<le> occurrences k s"
  by (induction s) (auto simp: occurrences_def)

lemma occurrences_all_present:
  "\<forall>s \<in> set samples. k \<in> set (map fst s) \<Longrightarrow> length samples \<le> occurrences k (concat samples)"
proof (induction samples)
  case Nil then show ?case by simp
next
  case (Cons s samples)
  from Cons.prems have "k \<in> set (map fst s)" by simp
  then have "1 \<le> occurrences k s" by (rule occurrences_present)
  moreover have "length samples \<le> occurrences k (concat samples)"
    using Cons by simp
  ultimately have "1 \<le> occurrences k s" "length samples \<le> occurrences k (concat samples)"
    by simp_all
  then show ?case by (simp add: occurrences_append)
qed

lemma sameFieldSet_keys:
  assumes "sameFieldSet samples" "samples \<noteq> []"
  shows "\<forall>s \<in> set samples. set (map fst s) = set (map fst (hd samples))"
  using assms by (cases samples) (auto simp: sameFieldSet_def list_all_iff)

lemma sameFieldSet_names:
  assumes "sameFieldSet samples" "samples \<noteq> []"
  shows "set (fieldNames samples) = set (map fst (hd samples))"
proof -
  have "set (fieldNames samples) = (\<Union>s \<in> set samples. set (map fst s))"
    by (auto simp: fieldNames_def)
  also have "\<dots> = set (map fst (hd samples))"
    using sameFieldSet_keys[OF assms] assms(2) by (cases samples) auto
  finally show ?thesis .
qed

lemma sameFieldSet_frequency:
  assumes "sameFieldSet samples" and "f \<in> set (commonFields (analyzeFrontmatterPatterns samples))"
  shows "8 / 10 \<le> frequency f"
proof -
  let ?k = "fieldName f"
  have ne: "samples \<noteq> []"
    using assms(2) by (auto simp: analyzeFrontmatterPatterns_def Let_def countFields_def normalizeFrequencies_def)
  have "?k \<in> set (fieldNames samples)"
    using assms(2) commonFields_set[of samples] by (metis image_eqI set_map)
  then have "\<forall>s \<in> set samples. ?k \<in> set (map fst s)"
    using sameFieldSet_keys[OF assms(1) ne] sameFieldSet_names[OF assms(1) ne] by simp
  then have le: "length samples \<le> occurrences ?k (concat samples)"
    by (rule occurrences_all_present)
  have pos: "0 < length samples" using ne by simp
  have "(1::rat) \<le> of_nat (occurrences ?k (concat samples)) / of_nat (length samples)"
    using le pos by (simp add: le_divide_eq)
  then have "(1::rat) \<le> frequency f" using commonFields_occurrences[OF assms(2)] by simp
  then show ?thesis by linarith
qed

lemma calculateConfidence_all_high:
  assumes "\<forall>f \<in> set fs. 8 / 10 \<le> frequency f" and "2 \<le> n"
  shows "calculateConfidence fs n =
     min (6 / 10
        + (if ''title'' \<in> set (map fieldName fs) then 2 / 10 else 0)
        + (if ''date'' \<in> set (map fieldName fs) \<or> ''publishedAt'' \<in> set (map fieldName fs)
              \<or> ''publishDate'' \<in> set (map fieldName fs) then 2 / 10 else 0)
        + (if 3 \<le> length fs then 1 / 10 else 0)
        + (if 5 \<le> n then 1 / 10 else 0)) 1"
proof -
  have a: "filter (\<lambda>f. 8 / 10 \<le> frequency f) fs = fs"
    using assms(1) by (simp add: filter_id_conv)
  have b: "list_ex (\<lambda>f. fieldName f = k \<and> 8 / 10 \<le> frequency f) fs \<longleftrightarrow> k \<in> set (map fieldName fs)" for k
    using assms(1) by (auto simp: list_ex_iff)
  show ?thesis
    unfolding calculateConfidence_def Let_def list_ex_names3 a b
    using assms(2) by simp
qed

lemma sameFieldSet_confidence:
  assumes "sameFieldSet samples" and "2 \<le> length samples"
  shows "confidence (analyzeFrontmatterPatterns samples) =
     min (6 / 10
        + (if ''title'' \<in> set (map fst (hd samples)) then 2 / 10 else 0)
        + (if ''date'' \<in> set (map fst (hd samples)) \<or> ''publishedAt'' \<in> set (map fst (hd samples))
              \<or> ''publishDate'' \<in> set (map fst (hd samples)) then 2 / 10 else 0)
        + (if 3 \<le> card (set (map fst (hd samples))) then 1 / 10 else 0)
        + (if 5 \<le> length samples then 1 / 10 else 0)) 1"
proof -
  let ?fs = "commonFields (analyzeFrontmatterPatterns samples)"
  have ne: "samples \<noteq> []" using assms(2) by auto
  have names: "set (map fieldName ?fs) = set (map fst (hd samples))"
    using commonFields_set[of samples] sameFieldSet_names[OF assms(1) ne] by simp
  have "length ?fs = length (map fieldName ?fs)" by simp
  also have "\<dots> = card (set (map fieldName ?fs))"
    using commonFields_distinct[of samples] by (simp only: distinct_card)
  finally have len: "length ?fs = card (set (map fst (hd samples)))"
    using names by simp
  have high: "\<forall>f \<in> set ?fs. 8 / 10 \<le> frequency f"
    using sameFieldSet_frequency[OF assms(1)] by blast
  show ?thesis
    unfolding confidence_analyze calculateConfidence_all_high[OF high assms(2)] names len ..
qed

lemma sameFieldSet_prefix:
  assumes "sameFieldSet (xs @ ys)" shows "sameFieldSet xs"
  using assms by (cases xs) (auto simp: sameFieldSet_def)

lemma twoPosts_threeMore_same: "sameFieldSet (twoPosts @ threeMore)"
  by (auto simp: sameFieldSet_def twoPosts_def threeMore_def)

section \<open>Properties of template generation\<close>













text \<open>
  A date instant has no own enumerable keys, so \<open>shouldSkipField\<close> takes a field whose
  examples are all date instants for one whose examples are all empty objects:
  \<open>generateTemplate\<close> leaves such a field out and never asks for its default.
\<close>

lemma shouldSkipField_instants:
  assumes "''object'' \<in> set (types p)" and "list_all isDateObject (examples p)"
  shows "shouldSkipField fname p"
proof -
  have "isEmptyObject v" if "isDateObject v" for v
    using that by (cases v) (simp_all add: isEmptyObject_def)
  then have "list_all isEmptyObject (examples p)"
    using assms(2) by (auto simp: list_all_iff)
  then show ?thesis using assms(1) by (simp add: shouldSkipField_def)
qed

section \<open>Properties of reading the content directory\<close>







section \<open>Properties of schema analysis\<close>

lemma extractFieldsFromZodShape_eq:
  "extractFieldsFromZodShape shape =
     map (\<lambda>(n, d). \<lparr>name = n, type = fst (getZodFieldType d), required = \<not> isZodFieldOptional d,
                     defaultValue = snd (getZodFieldType d), description = None\<rparr>) shape"
  by (induction shape)
     (auto simp: extractFieldsFromZodShape_def List.map_filter_simps parseZodFieldDefinition_def
        Let_def split: prod.splits)

lemma summary_extract:
  "map (\<lambda>f. (type f, required f, defaultValue f)) (extractFieldsFromZodShape shape)
   = map zodSummary (map snd shape)"
  by (simp add: extractFieldsFromZodShape_eq zodSummary_def case_prod_unfold comp_def)

lemma mset_filter_via_summary:
  assumes "\<And>x. P x = P' (h x)" and "\<And>x. g x = g' (h x)"
  shows "mset (map g (filter P xs)) = image_mset g' (filter_mset P' (mset (map h xs)))"
  using assms by (induction xs) auto

lemma extract_names: "map name (extractFieldsFromZodShape shape) = map fst shape"
  by (simp add: extractFieldsFromZodShape_eq case_prod_unfold comp_def)

lemma six_summaries:
  "image_mset zodSummary
     {#ZodString, ZodNumber, ZodBoolean, ZodEffects ZodDate,
       ZodDefault emptyArray (ZodArray ZodString), ZodDefault (JBool False) ZodBoolean#}
   = {#(string_type, True, JUndefined), (number_type, True, JUndefined),
       (boolean_type, True, JUndefined), (date_type, True, JUndefined),
       (array_type, False, emptyArray), (boolean_type, False, JBool False)#}"
  by (simp add: zodSummary_def getZodFieldType_def)

lemma json_six:
  assumes "distinct [n1, n2, n3, n4, n5, n6]"
  shows "map (\<lambda>f. (name f, type f, required f, defaultValue f, items f))
           (extractFieldsFromJsonSchema (sixFieldJson [n1, n2, n3, n4, n5, n6] emptyArray))
         = [(n1, string_type, True, JUndefined, None), (n2, number_type, True, JUndefined, None),
            (n3, boolean_type, True, JUndefined, None), (n4, date_type, True, JUndefined, None),
            (n5, array_type, False, emptyArray, Some string_type),
            (n6, boolean_type, False, JBool False, None)]"
  using assms
  by (auto simp: extractFieldsFromJsonSchema_def sixFieldJson_def plainJson_def
      List.map_filter_simps parseJsonSchemaField_def mapJsonSchemaType_def Let_def)





text \<open>
  A schema definition with a \<open>z.coerce.date()\<close> member never evaluates against the stand-ins,
  so \<open>analyzeSchemaFromConfig\<close> reports failure and no field for it.
\<close>

lemma evalShape_coerce_date:
  "(k, z_coerce_date) \<in> set props \<Longrightarrow> \<exists>err. evalShape props acc = Inl err"
proof (induction props arbitrary: acc)
  case Nil then show ?case by simp
next
  case (Cons p props)
  obtain k' e where p: "p = (k', e)" by (cases p)
  show ?case
  proof (cases "evalMock e")
    case (Inl err)
    then show ?thesis by (simp add: p)
  next
    case (Inr r)
    then have "e \<noteq> z_coerce_date" by auto
    then have "(k, z_coerce_date) \<in> set props" using Cons.prems p by auto
    from Cons.IH[OF this] Inr show ?thesis by (auto simp: p split: prod.splits)
  qed
qed

lemma coerce_date_fails:
  assumes "(k, z_coerce_date) \<in> set props"
  shows "\<not> schemaSuccess (analyzeSchemaFromConfig (Some (z_object props)))"
    and "schemaFields (analyzeSchemaFromConfig (Some (z_object props))) = []"
proof -
  from evalShape_coerce_date[OF assms, of "[]"] obtain err
    where "evalMock (z_object props) = Inl err" by auto
  then show "\<not> schemaSuccess (analyzeSchemaFromConfig (Some (z_object props)))"
    and "schemaFields (analyzeSchemaFromConfig (Some (z_object props))) = []"
    by (simp_all add: analyzeSchemaFromConfig_def failedAnalysis_def)
qed

section \<open>Properties of the choice between pattern and framework\<close>

lemma detect_success_form:
  assumes "detectFrontmatterPattern w fs dir n = Inr pd" and "success pd"
  shows "\<exists>samples tmpl. pattern pd = Some (analyzeFrontmatterPatterns samples)
           \<and> suggestedTemplate pd = Some tmpl"
  using assms
  by (auto simp: detectFrontmatterPattern_def Let_def split: fsEntry.splits if_splits)

lemma analyzed_confidence_nonzero: "confidence (analyzeFrontmatterPatterns samples) \<noteq> 0"
  using calculateConfidence_bounds[of "commonFields (analyzeFrontmatterPatterns samples)" "length samples"]
  by (auto simp: confidence_analyze)

lemma blogDir_detected:
  "(case detectFrontmatterPattern world0 blogDir ''src/content/blog'' 10 of
      Inl e \<Rightarrow> False
    | Inr pd \<Rightarrow> success pd \<and> map_option confidence (pattern pd) = Some (5 / 10))"
  by code_simp

lemma steadyDir_detected:
  "(case detectFrontmatterPattern world0 steadyDir ''posts'' 10 of
      Inl e \<Rightarrow> False
    | Inr pd \<Rightarrow> success pd \<and> map_option confidence (pattern pd) = Some (9 / 10))"
  by code_simp

text \<open>
  Claim C1 (schema classification), as amended.  For a schema whose shape holds exactly a plain
  string, a plain number, a plain boolean, a date under the coercion wrapper, an array of
  strings with default \<open>[]\<close> and a boolean with default \<open>false\<close>, in any order and under any
  names, runtime introspection reports exactly 4 required fields, the four with no default and
  no optional wrapper, and the two others as optional with their defaults as declared; and so
  does the JSON-schema projection, from the JSON schema that lists the four as required.
\<close>

theorem six_fields_four_required:
  assumes "mset (map snd shape) =
             {#ZodString, ZodNumber, ZodBoolean, ZodEffects ZodDate,
               ZodDefault emptyArray (ZodArray ZodString), ZodDefault (JBool False) ZodBoolean#}"
    and "distinct [n1, n2, n3, n4, n5, n6]"
  shows "length (filter (\<lambda>f. required f) (extractFieldsFromZodShape shape)) = 4
       \<and> mset (map (\<lambda>f. (type f, defaultValue f))
             (filter (\<lambda>f. required f) (extractFieldsFromZodShape shape)))
           = {#(string_type, JUndefined), (number_type, JUndefined), (boolean_type, JUndefined),
               (date_type, JUndefined)#}
       \<and> mset (map (\<lambda>f. (type f, defaultValue f))
             (filter (\<lambda>f. \<not> required f) (extractFieldsFromZodShape shape)))
           = {#(array_type, emptyArray), (boolean_type, JBool False)#}
       \<and> map name (extractFieldsFromZodShape shape) = map fst shape
       \<and> map (\<lambda>f. (name f, type f, required f, defaultValue f, items f))
             (extractFieldsFromJsonSchema (sixFieldJson [n1, n2, n3, n4, n5, n6] emptyArray))
           = [(n1, string_type, True, JUndefined, None), (n2, number_type, True, JUndefined, None),
              (n3, boolean_type, True, JUndefined, None), (n4, date_type, True, JUndefined, None),
              (n5, array_type, False, emptyArray, Some string_type),
              (n6, boolean_type, False, JBool False, None)]"
proof -
  let ?fs = "extractFieldsFromZodShape shape"
  let ?h = "\<lambda>f. (type f, required f, defaultValue f)"
  have M: "mset (map ?h ?fs) =
      {#(string_type, True, JUndefined), (number_type, True, JUndefined),
        (boolean_type, True, JUndefined), (date_type, True, JUndefined),
        (array_type, False, emptyArray), (boolean_type, False, JBool False)#}"
  proof -
    have "mset (map ?h ?fs) = image_mset zodSummary (mset (map snd shape))"
      unfolding summary_extract by (simp only: mset_map)
    then show ?thesis
      unfolding assms(1) six_summaries .
  qed
  have req: "mset (map (\<lambda>f. (type f, defaultValue f)) (filter (\<lambda>f. required f) ?fs))
      = image_mset (\<lambda>t. (fst t, snd (snd t))) (filter_mset (\<lambda>t. fst (snd t)) (mset (map ?h ?fs)))"
    by (rule mset_filter_via_summary) simp_all
  have opt: "mset (map (\<lambda>f. (type f, defaultValue f)) (filter (\<lambda>f. \<not> required f) ?fs))
      = image_mset (\<lambda>t. (fst t, snd (snd t))) (filter_mset (\<lambda>t. \<not> fst (snd t)) (mset (map ?h ?fs)))"
    by (rule mset_filter_via_summary) simp_all
  have r: "mset (map (\<lambda>f. (type f, defaultValue f)) (filter (\<lambda>f. required f) ?fs))
           = {#(string_type, JUndefined), (number_type, JUndefined), (boolean_type, JUndefined),
               (date_type, JUndefined)#}"
    unfolding req M by simp
  have o: "mset (map (\<lambda>f. (type f, defaultValue f)) (filter (\<lambda>f. \<not> required f) ?fs))
           = {#(array_type, emptyArray), (boolean_type, JBool False)#}"
    unfolding opt M by simp
  have "length (filter (\<lambda>f. required f) ?fs)
        = size (mset (map (\<lambda>f. (type f, defaultValue f)) (filter (\<lambda>f. required f) ?fs)))"
    by (simp only: size_mset length_map)
  then have l: "length (filter (\<lambda>f. required f) ?fs) = 4"
    unfolding r by simp
  show ?thesis
    using l r o extract_names[of shape] json_six[OF assms(2)] by simp
qed

theorem six_fields_four_required_witness:
  "mset (map snd sixFieldShape) =
     {#ZodString, ZodNumber, ZodBoolean, ZodEffects ZodDate,
       ZodDefault (JArr 1 []) (ZodArray ZodString), ZodDefault (JBool False) ZodBoolean#}
   \<and> distinct [''title'', ''order'', ''featured'', ''date'', ''tags'', ''draft'']
   \<and> length (filter (\<lambda>f. required f) (extractFieldsFromZodShape sixFieldShape)) = 4
   \<and> map name (extractFieldsFromZodShape sixFieldShape)
       = [''title'', ''order'', ''featured'', ''date'', ''tags'', ''draft'']"
proof -
  have a: "mset (map snd sixFieldShape) =
     {#ZodString, ZodNumber, ZodBoolean, ZodEffects ZodDate,
       ZodDefault (JArr 1 []) (ZodArray ZodString), ZodDefault (JBool False) ZodBoolean#}"
    by (simp add: sixFieldShape_def)
  have b: "distinct [''title'', ''order'', ''featured'', ''date'', ''tags'', ''draft'']"
    by simp
  have c: "map fst sixFieldShape = [''title'', ''order'', ''featured'', ''date'', ''tags'', ''draft'']"
    by (simp add: sixFieldShape_def)
  show ?thesis
    using six_fields_four_required[OF a b] a b c by simp
qed

text \<open>
  The claim as first stated, with exactly 2 required fields, fails on every path: introspection
  of the shape reports 4; the text-parsing fallback reports all 6, since it takes a field for
  optional only by its \<open>.optional()\<close>; and evaluating the definition against the stand-ins
  ends in the failure of their \<open>z.coerce.date\<close>, so that the analysis reports no field.
\<close>

theorem six_fields_not_two_required:
  "length (filter (\<lambda>f. required f) (extractFieldsFromZodShape sixFieldShape)) = 4
   \<and> length (schemaRequiredFields
               (analyzeSchema (\<lambda>s. if s = ''[]'' then Some (JArr 2 []) else None) sixFieldConfig)) = 6
   \<and> \<not> schemaSuccess (analyzeSchemaFromConfig (Some sixFieldExpr))
   \<and> schemaRequiredFields (analyzeSchemaFromConfig (Some sixFieldExpr)) = []"
  by code_simp




text \<open>
  Claim C3 (frequency partition).  For every list of frontmatter samples, each field name seen in
  the samples lands in the tier of its occurrence frequency: at least 0.8 in \<open>requiredFields\<close>,
  from 0.2 up to but excluding 0.8 in \<open>optionalFields\<close>, below 0.2 in \<open>rareFields\<close>; and
  the three lists together name no field twice, so no name is in more than one tier.
\<close>

theorem frequency_partition:
  assumes "wellFormed samples"
  shows "(\<forall>k \<in> set (fieldNames samples).
            (frequencyOf k samples \<ge> 8 / 10 \<longrightarrow>
               k \<in> set (requiredFields (analyzeFrontmatterPatterns samples))) \<and>
            (2 / 10 \<le> frequencyOf k samples \<and> frequencyOf k samples < 8 / 10 \<longrightarrow>
               k \<in> set (optionalFields (analyzeFrontmatterPatterns samples))) \<and>
            (frequencyOf k samples < 2 / 10 \<longrightarrow>
               k \<in> set (rareFields (analyzeFrontmatterPatterns samples)))) \<and>
         distinct (requiredFields (analyzeFrontmatterPatterns samples)
                   @ optionalFields (analyzeFrontmatterPatterns samples)
                   @ rareFields (analyzeFrontmatterPatterns samples))"
proof (intro conjI ballI)
  let ?p = "analyzeFrontmatterPatterns samples"
  show "distinct (requiredFields ?p @ optionalFields ?p @ rareFields ?p)"
    unfolding tiers_eq
    by (rule distinct_three_filters[OF commonFields_distinct]) auto
next
  let ?p = "analyzeFrontmatterPatterns samples"
  fix k assume "k \<in> set (fieldNames samples)"
  then have "k \<in> fieldName ` set (commonFields ?p)"
    using commonFields_set[of samples] by simp
  then obtain f where f: "f \<in> set (commonFields ?p)" and k: "fieldName f = k"
    by blast
  have fr: "frequency f = frequencyOf k samples"
    using commonFields_frequency[OF assms f] k by simp
  show "frequencyOf k samples \<ge> 8 / 10 \<longrightarrow> k \<in> set (requiredFields ?p)"
    unfolding tiers_eq using f k fr by force
  show "2 / 10 \<le> frequencyOf k samples \<and> frequencyOf k samples < 8 / 10 \<longrightarrow> k \<in> set (optionalFields ?p)"
    unfolding tiers_eq using f k fr by force
  show "frequencyOf k samples < 2 / 10 \<longrightarrow> k \<in> set (rareFields ?p)"
    unfolding tiers_eq using f k fr by force
qed

theorem frequency_partition_witness:
  "wellFormed sixPosts \<and>
   ''title'' \<in> set (requiredFields (analyzeFrontmatterPatterns sixPosts)) \<and>
   ''date'' \<in> set (requiredFields (analyzeFrontmatterPatterns sixPosts)) \<and>
   ''tags'' \<in> set (optionalFields (analyzeFrontmatterPatterns sixPosts)) \<and>
   ''legacy'' \<in> set (rareFields (analyzeFrontmatterPatterns sixPosts)) \<and>
   ''title'' \<notin> set (optionalFields (analyzeFrontmatterPatterns sixPosts))"
  using frequency_partition[OF sixPosts_wellFormed] sixPosts_wellFormed
  by (auto simp: sixPosts_names sixPosts_freq)



text \<open>
  Claim C5 (confidence monotonicity).  When every sample of a list and of its extension has the
  same set of field names, the confidence computed on the extended list is at least the
  confidence computed on the shorter prefix; and for zero or one sample the confidence is
  exactly 0.5.  The value types of the fields play no part in the confidence, so nothing is
  asked of them.
\<close>

theorem confidence_monotone:
  assumes "sameFieldSet (xs @ ys)"
  shows "confidence (analyzeFrontmatterPatterns xs) \<le> confidence (analyzeFrontmatterPatterns (xs @ ys))
       \<and> confidence (analyzeFrontmatterPatterns []) = 5 / 10
       \<and> confidence (analyzeFrontmatterPatterns [s]) = 5 / 10"
proof (intro conjI)
  show "confidence (analyzeFrontmatterPatterns []) = 5 / 10"
    by (simp add: confidence_analyze calculateConfidence_few)
  show "confidence (analyzeFrontmatterPatterns [s]) = 5 / 10"
    by (simp add: confidence_analyze calculateConfidence_few)
  show "confidence (analyzeFrontmatterPatterns xs) \<le> confidence (analyzeFrontmatterPatterns (xs @ ys))"
  proof (cases "2 \<le> length xs")
    case False
    then have "confidence (analyzeFrontmatterPatterns xs) = 5 / 10"
      by (simp add: confidence_analyze calculateConfidence_few)
    moreover have "5 / 10 \<le> confidence (analyzeFrontmatterPatterns (xs @ ys))"
      unfolding confidence_analyze
      using calculateConfidence_bounds[of "commonFields (analyzeFrontmatterPatterns (xs @ ys))" "length (xs @ ys)"]
      by auto
    ultimately show ?thesis by simp
  next
    case True
    then have ne: "xs \<noteq> []" and two: "2 \<le> length (xs @ ys)" by auto
    have hd: "hd (xs @ ys) = hd xs" using ne by simp
    show ?thesis
      unfolding sameFieldSet_confidence[OF sameFieldSet_prefix[OF assms] True]
        sameFieldSet_confidence[OF assms two] hd
      by (auto simp: min_def)
  qed
qed

theorem confidence_monotone_witness:
  "sameFieldSet (twoPosts @ threeMore) \<and>
   confidence (analyzeFrontmatterPatterns twoPosts)
     \<le> confidence (analyzeFrontmatterPatterns (twoPosts @ threeMore))"
  using confidence_monotone[OF twoPosts_threeMore_same] twoPosts_threeMore_same by simp

text \<open>
  Claim C6 (image detection), as amended.  An object-typed schema member is classified
  \<open>image\<close> exactly when its members include both one named \<open>src\<close> and one named \<open>alt\<close>,
  whatever other members it has, and \<open>object\<close> otherwise; this holds for runtime
  introspection (also under an optional or a default wrapper) and for the JSON-schema
  projection.
\<close>

theorem image_iff_src_and_alt:
  "fst (getZodFieldType (ZodObject shape)) =
     (if ''src'' \<in> set (map fst shape) \<and> ''alt'' \<in> set (map fst shape)
      then image_type else object_type)
   \<and> fst (getZodFieldType (ZodOptional (ZodObject shape))) = fst (getZodFieldType (ZodObject shape))
   \<and> fst (getZodFieldType (ZodDefault v (ZodObject shape))) = fst (getZodFieldType (ZodObject shape))
   \<and> mapJsonSchemaType (JsonSchema (Some ''object'') fmt (Some props) its dv req desc ref defs) =
     (if ''src'' \<in> set (map fst props) \<and> ''alt'' \<in> set (map fst props)
      then image_type else object_type)
   \<and> mapJsonSchemaType (JsonSchema (Some ''object'') fmt None its dv req desc ref defs) = object_type"
  by (simp add: getZodFieldType_def mapJsonSchemaType_def hasProperty_def map_has_iff)

theorem image_iff_src_and_alt_witness:
  "fst (getZodFieldType (ZodObject [(''src'', ZodString), (''alt'', ZodString)])) = image_type
   \<and> fst (getZodFieldType (ZodObject [(''url'', ZodString), (''alt'', ZodString)])) = object_type
   \<and> fst (getZodFieldType (ZodObject [(''src'', ZodString)])) = object_type"
  using image_iff_src_and_alt[of "[(''src'', ZodString), (''alt'', ZodString)]"]
    image_iff_src_and_alt[of "[(''url'', ZodString), (''alt'', ZodString)]"]
    image_iff_src_and_alt[of "[(''src'', ZodString)]"]
  by simp

text \<open>
  The claim as first stated fails: a third member does not turn an image into an object.
\<close>

theorem three_members_still_image:
  "length captionedImage = 3 \<and> fst (getZodFieldType (ZodObject captionedImage)) = image_type
   \<and> mapJsonSchemaType captionedImageJson = image_type"
  by (simp add: captionedImage_def captionedImageJson_def getZodFieldType_def
      mapJsonSchemaType_def hasProperty_def)

text \<open>
  Claim C7 (conflict resolution).  When pattern detection succeeded, a framework was detected,
  and the suggested template has no empty-object conflict with the schema analysis, the
  framework is preferred exactly when the confidence of the pattern is below 0.7 and the
  confidence of the framework is above 0.8.  So a pattern at 0.5 against a framework at 0.9
  gives way to the framework, and a pattern at 0.9 against a framework at 0.5 is kept.
\<close>

theorem prefer_schema_iff:
  assumes "detectFrontmatterPattern w fs dir n = Inr pd" and "success pd"
    and "primary fd = Some fw"
    and "\<forall>tmpl analysis. suggestedTemplate pd = Some tmpl \<and> schemaAnalysis fd = Some analysis
           \<and> analysisSuccess analysis \<longrightarrow> \<not> detectSchemaConflicts tmpl analysis"
  shows "\<exists>pat. pattern pd = Some pat
           \<and> (shouldPreferFrameworkOverPattern pd fd
                \<longleftrightarrow> confidence pat < 7 / 10 \<and> frameworkConfidence fw > 8 / 10)"
proof -
  from detect_success_form[OF assms(1,2)] obtain samples tmpl
    where p: "pattern pd = Some (analyzeFrontmatterPatterns samples)"
      and t: "suggestedTemplate pd = Some tmpl" by blast
  have nc: "\<not> (case schemaAnalysis fd of None \<Rightarrow> False
              | Some analysis \<Rightarrow> analysisSuccess analysis \<and> detectSchemaConflicts tmpl analysis)"
    using assms(4) t by (auto split: option.splits)
  have "shouldPreferFrameworkOverPattern pd fd
        \<longleftrightarrow> confidence (analyzeFrontmatterPatterns samples) < 7 / 10 \<and> frameworkConfidence fw > 8 / 10"
    using assms(2,3) p t nc analyzed_confidence_nonzero[of samples]
    by (auto simp: shouldPreferFrameworkOverPattern_def)
  with p show ?thesis by simp
qed

theorem prefer_schema_iff_witness:
  "(\<exists>pd. detectFrontmatterPattern world0 blogDir ''src/content/blog'' 10 = Inr pd \<and> success pd
         \<and> map_option confidence (pattern pd) = Some (5 / 10)
         \<and> shouldPreferFrameworkOverPattern pd (framework (9 / 10)))
   \<and> (\<exists>pd. detectFrontmatterPattern world0 steadyDir ''posts'' 10 = Inr pd \<and> success pd
         \<and> map_option confidence (pattern pd) = Some (9 / 10)
         \<and> \<not> shouldPreferFrameworkOverPattern pd (framework (5 / 10)))"
proof -
  have fw: "primary (framework c) = Some \<lparr>frameworkName = ''Astro'', frameworkConfidence = c\<rparr>"
    "schemaAnalysis (framework c) = None" for c
    by (simp_all add: framework_def)
  obtain pd1 where d1: "detectFrontmatterPattern world0 blogDir ''src/content/blog'' 10 = Inr pd1"
    and s1: "success pd1" and c1: "map_option confidence (pattern pd1) = Some (5 / 10)"
    using blogDir_detected by (auto split: sum.splits)
  obtain pd2 where d2: "detectFrontmatterPattern world0 steadyDir ''posts'' 10 = Inr pd2"
    and s2: "success pd2" and c2: "map_option confidence (pattern pd2) = Some (9 / 10)"
    using steadyDir_detected by (auto split: sum.splits)
  have "shouldPreferFrameworkOverPattern pd1 (framework (9 / 10))"
    using prefer_schema_iff[OF d1 s1 fw(1)[of "9 / 10"]] c1 by (auto simp: fw)
  moreover have "\<not> shouldPreferFrameworkOverPattern pd2 (framework (5 / 10))"
    using prefer_schema_iff[OF d2 s2 fw(1)[of "5 / 10"]] c2 by (auto simp: fw)
  ultimately show ?thesis
    using d1 s1 c1 d2 s2 c2 by blast
qed






text \<open>
  Claim C10 (range of the confidence).  For every field list and every sample count,
  \<open>calculateConfidence\<close> returns 0.5 or a value between 0.6 and 1.0, and so does the confidence
  of every pattern that the analysis produces: never below 0.5, never above 1.0.
\<close>

theorem confidence_range:
  "calculateConfidence fs n \<in> {5 / 10} \<union> {6 / 10 .. 1} \<and>
   confidence (analyzeFrontmatterPatterns samples) \<in> {5 / 10} \<union> {6 / 10 .. 1}"
  unfolding confidence_analyze
  using calculateConfidence_bounds[of fs n]
    calculateConfidence_bounds[of "commonFields (analyzeFrontmatterPatterns samples)" "length samples"]
  by auto

end
